theory Spec2Isabelle
  imports Main
begin

section \<open>Values, operands, instruction descriptors, statements\<close>

text \<open>
  The model follows \<^verbatim>\<open>cocoasm/statement.py\<close>. A Python value held in one of the
  encoding fields is \<^verbatim>\<open>None\<close>, an integer or a string; its truth value is Python's.
  Strings are lists of characters with code points 0 to 255.
\<close>

datatype pyval = PNone | PInt int | PStr string

fun truthy :: "pyval \<Rightarrow> bool" where
  "truthy PNone = False"
| "truthy (PInt i) = (i \<noteq> 0)"
| "truthy (PStr s) = (s \<noteq> [])"

text \<open>
  The class \<^verbatim>\<open>Operand\<close> (module \<^verbatim>\<open>cocoasm.operand\<close>) is used by the statement only
  through its predicates and accessors; an operand object is the record of what they
  return. No relation between the predicates is built in.
\<close>

record operand =
  is_symbol :: bool
  is_inherent :: bool
  is_immediate :: bool
  is_extended_indirect :: bool
  is_direct :: bool
  is_extended :: bool
  get_string_value :: "string option"
  get_immediate :: pyval
  get_extended_indirect :: pyval

text \<open>
  An instruction descriptor (module \<^verbatim>\<open>cocoasm.instruction\<close>) with its addressing
  modes: for each mode the opcode value and the answer of the \<^verbatim>\<open>supports_\<close> method.
\<close>

record mode =
  inh :: pyval
  imm :: pyval
  dir :: pyval
  ind :: pyval
  ext :: pyval
  rel :: pyval
  supports_inherent :: bool
  supports_immediate :: bool
  supports_indexed :: bool
  supports_direct :: bool
  supports_extended :: bool

record instruction =
  mnemonic :: string
  mode :: mode
  is_pseudo :: bool
  is_special :: bool
  is_branch_operation :: bool

text \<open>
  Instruction descriptors are objects: the table \<^verbatim>\<open>INSTRUCTIONS\<close> is a list of
  references into a store of descriptors, and \<^verbatim>\<open>copy\<close> allocates a new object. The
  mode of a descriptor is a value held in the descriptor, not an object of its own.
\<close>

type_synonym ref = nat

record heap =
  store :: "ref \<Rightarrow> instruction"
  next_ref :: ref

record statement =
  empty_flag :: bool
  comment_only :: bool
  instruction :: "ref option"
  label :: "string option"
  operand :: operand
  comment :: "string option"
  size_bytes :: nat
  address :: pyval
  mnemonic :: "string option"
  op_code :: pyval
  post_byte :: pyval
  additional :: pyval
  state :: pyval

text \<open>
  \<^verbatim>\<open>ParseError\<close> and \<^verbatim>\<open>TranslationError\<close> are raised with a message and the
  statement. \<^verbatim>\<open>TypeError\<close> and \<^verbatim>\<open>AttributeError\<close> are Python's own, raised by
  \<^verbatim>\<open>len\<close> of a value that has no length and by a method call on \<^verbatim>\<open>None\<close>; the model
  keeps with them the statement as it is when they are raised.
\<close>

datatype error =
    ParseError string statement
  | TranslationError string statement
  | TypeError statement
  | AttributeError statement

type_synonym symbol_table = "string \<rightharpoonup> statement"

text \<open>
  What the statement imports from modules that are not part of this development:
  \<^verbatim>\<open>hex_value(value, size)\<close> of \<^verbatim>\<open>cocoasm.helpers\<close>, the constructor
  \<^verbatim>\<open>Operand(text)\<close>, and the two handlers of a descriptor,
  \<^verbatim>\<open>translate_pseudo(label, operand, symbol_table)\<close> and
  \<^verbatim>\<open>translate_special(operand)\<close>. A handler is a method of the descriptor held
  by the statement: it returns its result, or raises, and leaves its own descriptor
  in a new state. \<^verbatim>\<open>hex_value\<close> and \<^verbatim>\<open>Operand\<close> are taken to return a value for
  every argument.
\<close>

record env =
  hex_value :: "pyval \<Rightarrow> nat \<Rightarrow> pyval"
  Operand :: "pyval \<Rightarrow> operand"
  translate_pseudo ::
    "instruction \<Rightarrow> string \<Rightarrow> operand \<Rightarrow> symbol_table \<Rightarrow> (error + pyval) \<times> instruction"
  translate_special :: "instruction \<Rightarrow> operand \<Rightarrow> (error + pyval) \<times> instruction"

section \<open>The three line patterns\<close>

text \<open>
  Character classes of Python's \<^verbatim>\<open>re\<close> on \<^verbatim>\<open>str\<close> patterns, for code points
  below 256: \<^verbatim>\<open>\s\<close> is Unicode white space, \<^verbatim>\<open>\w\<close> is an alphanumeric
  character or the underscore, \<^verbatim>\<open>.\<close> is anything but a line feed.
\<close>

definition is_space :: "char \<Rightarrow> bool" where
  "is_space c = (let n = (of_char c :: nat) in
     (9 \<le> n \<and> n \<le> 13) \<or> (28 \<le> n \<and> n \<le> 32) \<or> n = 133 \<or> n = 160)"

definition is_word :: "char \<Rightarrow> bool" where
  "is_word c = (let n = (of_char c :: nat) in
     (48 \<le> n \<and> n \<le> 57) \<or> (65 \<le> n \<and> n \<le> 90) \<or> n = 95 \<or> (97 \<le> n \<and> n \<le> 122) \<or>
     n = 170 \<or> n = 178 \<or> n = 179 \<or> n = 181 \<or> n = 185 \<or> n = 186 \<or>
     (188 \<le> n \<and> n \<le> 190) \<or> (192 \<le> n \<and> n \<le> 214) \<or> (216 \<le> n \<and> n \<le> 246) \<or>
     (248 \<le> n \<and> n \<le> 255))"

definition is_dot :: "char \<Rightarrow> bool" where
  "is_dot c = (c \<noteq> CHR 0x0A)"

definition is_semicolon :: "char \<Rightarrow> bool" where
  "is_semicolon c = (c = CHR '';'')"

text \<open>
  The class \<^verbatim>\<open>[\w\[\]#$,+-\.\*]\<close> of the operand field; \<^verbatim>\<open>+-\.\<close> is the range
  from \<^verbatim>\<open>+\<close> to \<^verbatim>\<open>.\<close>, that is \<^verbatim>\<open>+\<close>, \<^verbatim>\<open>,\<close>, \<^verbatim>\<open>-\<close> and \<^verbatim>\<open>.\<close>.
\<close>

definition is_operand_char :: "char \<Rightarrow> bool" where
  "is_operand_char c = (is_word c \<or> c = CHR ''['' \<or> c = CHR '']'' \<or> c = CHR ''#'' \<or>
     c = CHR ''$'' \<or> c = CHR '','' \<or>
     (of_char (CHR ''+'') \<le> (of_char c :: nat) \<and> (of_char c :: nat) \<le> of_char (CHR ''.'')) \<or>
     c = CHR ''*'')"

text \<open>
  Each of the three patterns is \<^verbatim>\<open>^\<close>, a sequence of quantified character classes,
  and \<^verbatim>\<open>$\<close>. The matcher is the backtracking one of \<^verbatim>\<open>re\<close>: a greedy quantifier
  takes the longest run first and gives characters back one at a time; the first
  complete match wins. The result lists the text taken by each item.
\<close>

datatype quant = Once | ZeroOrMore | OneOrMore

type_synonym item = "(char \<Rightarrow> bool) \<times> quant"

fun first_some :: "('a \<Rightarrow> 'b option) \<Rightarrow> 'a list \<Rightarrow> 'b option" where
  "first_some f [] = None"
| "first_some f (x # xs) = (case f x of Some y \<Rightarrow> Some y | None \<Rightarrow> first_some f xs)"

fun lengths :: "(char \<Rightarrow> bool) \<Rightarrow> quant \<Rightarrow> string \<Rightarrow> nat list" where
  "lengths c Once s = (case s of [] \<Rightarrow> [] | x # _ \<Rightarrow> if c x then [1] else [])"
| "lengths c ZeroOrMore s = rev [0 ..< Suc (length (takeWhile c s))]"
| "lengths c OneOrMore s = rev [1 ..< Suc (length (takeWhile c s))]"

text \<open>\<^verbatim>\<open>$\<close> matches at the end of the text and before a line feed that ends it.\<close>

definition at_end :: "string \<Rightarrow> bool" where
  "at_end s = (s = [] \<or> s = [CHR 0x0A])"

fun re_match :: "item list \<Rightarrow> string \<Rightarrow> string list option" where
  "re_match [] s = (if at_end s then Some [] else None)"
| "re_match (i # is) s =
     first_some (\<lambda>k. map_option ((#) (take k s)) (re_match is (drop k s)))
       (lengths (fst i) (snd i) s)"

definition BLANK_LINE_REGEX :: "item list" where
  "BLANK_LINE_REGEX = [(is_space, ZeroOrMore)]"

definition COMMENT_LINE_REGEX :: "item list" where
  "COMMENT_LINE_REGEX =
     [(is_space, ZeroOrMore), (is_semicolon, Once), (is_space, ZeroOrMore), (is_dot, ZeroOrMore)]"

definition ASM_LINE_REGEX :: "item list" where
  "ASM_LINE_REGEX =
     [(is_word, ZeroOrMore), (is_space, OneOrMore), (is_word, ZeroOrMore), (is_space, OneOrMore),
      (is_operand_char, ZeroOrMore), (is_space, ZeroOrMore), (is_semicolon, ZeroOrMore),
      (is_dot, ZeroOrMore)]"

text \<open>\<^verbatim>\<open>str.strip()\<close> removes white space at both ends.\<close>

definition strip :: "string \<Rightarrow> string" where
  "strip s = rev (dropWhile is_space (rev (dropWhile is_space s)))"

text \<open>\<^verbatim>\<open>x or None\<close> on a string.\<close>

definition or_None :: "string \<Rightarrow> string option" where
  "or_None s = (if s = [] then None else Some s)"

section \<open>Construction and parsing\<close>

definition set_address :: "env \<Rightarrow> pyval \<Rightarrow> statement \<Rightarrow> statement" where
  "set_address e a st = st\<lparr>address := hex_value e a 4\<rparr>"

text \<open>The fields as \<^verbatim>\<open>__init__\<close> sets them before it calls \<^verbatim>\<open>parse_line\<close>.\<close>

definition init_fields :: "env \<Rightarrow> statement" where
  "init_fields e = set_address e (PInt 0)
     \<lparr>empty_flag = True, comment_only = False, instruction = None, label = None,
      operand = Operand e PNone, comment = None, size_bytes = 0, address = PNone,
      mnemonic = None, op_code = PNone, post_byte = PNone, additional = PNone,
      state = PNone\<rparr>"

text \<open>
  \<^verbatim>\<open>parse_line\<close>. The groups of a match are the texts of its items, counted from 0:
  \<^verbatim>\<open>comment\<close> is item 3 of the comment pattern; \<^verbatim>\<open>label\<close>, \<^verbatim>\<open>mnemonic\<close>,
  \<^verbatim>\<open>operands\<close> and \<^verbatim>\<open>comment\<close> are items 0, 2, 4 and 7 of the instruction pattern.
\<close>

definition parse_line :: "env \<Rightarrow> string \<Rightarrow> statement \<Rightarrow> error + statement" where
  "parse_line e line st =
     (if re_match BLANK_LINE_REGEX line \<noteq> None then Inr st
      else case re_match COMMENT_LINE_REGEX line of
        Some g \<Rightarrow> Inr (st\<lparr>empty_flag := False, comment_only := True,
                          comment := Some (strip (g ! 3))\<rparr>)
      | None \<Rightarrow>
        (case re_match ASM_LINE_REGEX line of
           Some g \<Rightarrow> Inr (st\<lparr>label := or_None (g ! 0), mnemonic := or_None (g ! 2),
                             operand := Operand e (PStr (g ! 4)),
                             comment := or_None (strip (g ! 7)), empty_flag := False\<rparr>)
         | None \<Rightarrow> Inl (ParseError (''Could not parse line ['' @ line @ '']'') st)))"

definition Statement :: "env \<Rightarrow> string \<Rightarrow> error + statement" where
  "Statement e line = parse_line e line (init_fields e)"

section \<open>Accessors\<close>

definition get_address :: "statement \<Rightarrow> pyval" where
  "get_address st = (if truthy (address st) then address st else PStr ''0000'')"

definition get_label :: "statement \<Rightarrow> string" where
  "get_label st = (case label st of Some l \<Rightarrow> l | None \<Rightarrow> [])"

definition get_op_codes :: "env \<Rightarrow> statement \<Rightarrow> pyval" where
  "get_op_codes e st = (let h = hex_value e (op_code st) 2 in if truthy h then h else PNone)"

definition get_additional :: "env \<Rightarrow> statement \<Rightarrow> pyval" where
  "get_additional e st = (let h = hex_value e (additional st) 2 in if truthy h then h else PNone)"

definition get_post_byte :: "env \<Rightarrow> statement \<Rightarrow> pyval" where
  "get_post_byte e st = (let h = hex_value e (post_byte st) 2 in if truthy h then h else PNone)"

definition get_size :: "statement \<Rightarrow> nat" where
  "get_size st = size_bytes st"

text \<open>\<^verbatim>\<open>"{}".format(x)\<close> for a string or \<^verbatim>\<open>None\<close>.\<close>

definition fmt :: "string option \<Rightarrow> string" where
  "fmt x = (case x of None \<Rightarrow> ''None'' | Some s \<Rightarrow> s)"

text \<open>\<^verbatim>\<open>int(len(x) / 2)\<close>: \<^verbatim>\<open>len\<close> raises on a value that has no length.\<close>

definition half_len :: "statement \<Rightarrow> pyval \<Rightarrow> error + nat" where
  "half_len st v = (case v of PStr s \<Rightarrow> Inr (length s div 2) | _ \<Rightarrow> Inl (TypeError st))"

definition and_then :: "error + 'a \<Rightarrow> ('a \<Rightarrow> error + 'b) \<Rightarrow> error + 'b" where
  "and_then r f = (case r of Inl x \<Rightarrow> Inl x | Inr a \<Rightarrow> f a)"

section \<open>Mnemonic resolution\<close>

definition match_operation :: "ref list \<Rightarrow> heap \<Rightarrow> statement \<Rightarrow> ref option" where
  "match_operation INSTRUCTIONS h st =
     List.find (\<lambda>op. Some (instruction.mnemonic (store h op)) = mnemonic st) INSTRUCTIONS"

text \<open>\<^verbatim>\<open>copy(x)\<close> of a descriptor: a new object with the same fields.\<close>

definition copy :: "heap \<Rightarrow> ref \<Rightarrow> ref \<times> heap" where
  "copy h r = (next_ref h,
     h\<lparr>store := (store h)(next_ref h := store h r), next_ref := Suc (next_ref h)\<rparr>)"

text \<open>\<^verbatim>\<open>copy(None)\<close> is \<^verbatim>\<open>None\<close>; a descriptor object is true in a condition.\<close>

definition match_mnemonic :: "ref list \<Rightarrow> heap \<Rightarrow> statement \<Rightarrow> heap \<times> (error + statement)" where
  "match_mnemonic INSTRUCTIONS h st =
     (case match_operation INSTRUCTIONS h st of
        None \<Rightarrow>
          (let st' = st\<lparr>instruction := None\<rparr>
           in (h, Inl (TranslationError (''Invalid mnemonic ['' @ fmt (mnemonic st) @ '']'') st')))
      | Some r \<Rightarrow>
          (case copy h r of (r', h') \<Rightarrow> (h', Inr (st\<lparr>instruction := Some r'\<rparr>))))"

section \<open>Translation\<close>

text \<open>
  Lines 214 to 221: the operand that the rest of \<^verbatim>\<open>translate\<close> works on; \<^verbatim>\<open>None\<close>
  when the method returns at line 221.
\<close>

definition resolve_operand :: "env \<Rightarrow> symbol_table \<Rightarrow> statement \<Rightarrow> error + operand option" where
  "resolve_operand e symbol_table st =
     (if is_symbol (operand st) then
        (let symbol = get_string_value (operand st) in
         case (case symbol of None \<Rightarrow> None | Some s \<Rightarrow> symbol_table s) of
           None \<Rightarrow> Inl (TranslationError (''Unknown symbol ['' @ fmt symbol @ '']'') st)
         | Some target \<Rightarrow>
             (let opnd = Operand e (get_address target) in
              if get_string_value opnd = None \<or> get_string_value opnd = Some []
              then Inr None else Inr (Some opnd)))
      else Inr (Some (operand st)))"

text \<open>Lines 228 to 266: one definition for each \<^verbatim>\<open>if\<close> of the source, in its order.\<close>

definition inherent_step :: "instruction \<Rightarrow> operand \<Rightarrow> statement \<Rightarrow> error + statement" where
  "inherent_step d opnd st =
     (if is_inherent opnd then
        (if supports_inherent (mode d) then Inr (st\<lparr>op_code := inh (mode d)\<rparr>)
         else Inl (TranslationError
           (''Instruction ['' @ fmt (mnemonic st) @ ''] requires an operand'') st))
      else Inr st)"

definition immediate_step :: "instruction \<Rightarrow> operand \<Rightarrow> statement \<Rightarrow> error + statement" where
  "immediate_step d opnd st =
     (if is_immediate opnd then
        (if supports_immediate (mode d)
         then Inr (st\<lparr>op_code := imm (mode d), additional := get_immediate opnd\<rparr>)
         else Inl (TranslationError
           (''Instruction ['' @ fmt (mnemonic st) @ ''] does not support immediate addressing'') st))
      else Inr st)"

definition extended_indirect_step ::
  "instruction \<Rightarrow> operand \<Rightarrow> statement \<Rightarrow> error + statement" where
  "extended_indirect_step d opnd st =
     (if is_extended_indirect opnd then
        (if supports_indexed (mode d)
         then Inr (st\<lparr>op_code := ind (mode d), additional := get_extended_indirect opnd,
                       post_byte := PInt 0x9F\<rparr>)
         else Inl (TranslationError
           (''Instruction ['' @ fmt (mnemonic st) @ ''] does not support indexed addressing'') st))
      else Inr st)"

definition of_string_value :: "string option \<Rightarrow> pyval" where
  "of_string_value x = (case x of None \<Rightarrow> PNone | Some s \<Rightarrow> PStr s)"

definition direct_step :: "instruction \<Rightarrow> operand \<Rightarrow> statement \<Rightarrow> error + statement" where
  "direct_step d opnd st =
     (if is_direct opnd then
        (if supports_direct (mode d)
         then Inr (st\<lparr>op_code := dir (mode d),
                       additional := of_string_value (get_string_value opnd)\<rparr>)
         else Inl (TranslationError
           (''Instruction ['' @ fmt (mnemonic st) @ ''] does not support direct addressing'') st))
      else Inr st)"

definition extended_step :: "instruction \<Rightarrow> operand \<Rightarrow> statement \<Rightarrow> error + statement" where
  "extended_step d opnd st =
     (if is_extended opnd then
        (if supports_extended (mode d)
         then Inr (st\<lparr>op_code := ext (mode d),
                       additional := of_string_value (get_string_value opnd)\<rparr>)
         else Inl (TranslationError
           (''Instruction ['' @ fmt (mnemonic st) @ ''] does not support extended addressing'') st))
      else Inr st)"

text \<open>Lines 268 to 275.\<close>

definition count_op_code :: "env \<Rightarrow> statement \<Rightarrow> error + statement" where
  "count_op_code e st =
     (if truthy (op_code st)
      then and_then (half_len st (get_op_codes e st))
             (\<lambda>n. Inr (st\<lparr>size_bytes := size_bytes st + n\<rparr>))
      else Inr st)"

definition count_additional :: "env \<Rightarrow> statement \<Rightarrow> error + statement" where
  "count_additional e st =
     (if truthy (additional st)
      then and_then (half_len st (get_additional e st))
             (\<lambda>n. Inr (st\<lparr>size_bytes := size_bytes st + n\<rparr>))
      else Inr st)"

definition count_post_byte :: "env \<Rightarrow> statement \<Rightarrow> error + statement" where
  "count_post_byte e st =
     (if truthy (post_byte st)
      then and_then (half_len st (get_post_byte e st))
             (\<lambda>n. Inr (st\<lparr>size_bytes := size_bytes st + n\<rparr>))
      else Inr st)"

text \<open>Lines 223 to 275, on the operand left by symbol resolution.\<close>

definition encode :: "env \<Rightarrow> instruction \<Rightarrow> operand \<Rightarrow> statement \<Rightarrow> error + statement" where
  "encode e d opnd st =
     (if is_branch_operation d then Inr (st\<lparr>op_code := rel (mode d)\<rparr>)
      else and_then (inherent_step d opnd st) (\<lambda>st.
           and_then (immediate_step d opnd st) (\<lambda>st.
           and_then (extended_indirect_step d opnd st) (\<lambda>st.
           and_then (direct_step d opnd st) (\<lambda>st.
           and_then (extended_step d opnd st) (\<lambda>st.
           and_then (count_op_code e st) (\<lambda>st.
           and_then (count_additional e st) (\<lambda>st.
           count_post_byte e st))))))))"

text \<open>
  \<^verbatim>\<open>translate\<close>. With no descriptor in \<^verbatim>\<open>self.instruction\<close> the first line raises
  \<^verbatim>\<open>AttributeError\<close>. A handler runs on the statement's own descriptor object.
\<close>

definition translate ::
  "env \<Rightarrow> symbol_table \<Rightarrow> heap \<Rightarrow> statement \<Rightarrow> heap \<times> (error + statement)" where
  "translate e symbol_table h st =
     (case instruction st of
        None \<Rightarrow> (h, Inl (AttributeError st))
      | Some r \<Rightarrow>
          (let d = store h r in
           if is_pseudo d then
             (case translate_pseudo e d (get_label st) (operand st) symbol_table of
                (res, d') \<Rightarrow>
                  (h\<lparr>store := (store h)(r := d')\<rparr>,
                   and_then res (\<lambda>v. Inr (st\<lparr>additional := v\<rparr>))))
           else if is_special d then
             (case translate_special e d (operand st) of
                (res, d') \<Rightarrow>
                  (h\<lparr>store := (store h)(r := d')\<rparr>,
                   and_then res (\<lambda>v. Inr (st\<lparr>post_byte := v\<rparr>))))
           else
             (h, and_then (resolve_operand e symbol_table st) (\<lambda>resolved.
                   case resolved of
                     None \<Rightarrow> Inr st
                   | Some opnd \<Rightarrow> encode e d opnd st))))"

text \<open>
  The order in which a caller runs the three methods on one line of text: construct
  the statement, resolve its mnemonic, translate it. Used for the examples below.
\<close>

definition assemble_line ::
  "env \<Rightarrow> ref list \<Rightarrow> heap \<Rightarrow> symbol_table \<Rightarrow> string \<Rightarrow> heap \<times> (error + statement)" where
  "assemble_line e INSTRUCTIONS h symbol_table line =
     (case Statement e line of
        Inl err \<Rightarrow> (h, Inl err)
      | Inr st \<Rightarrow>
          (case match_mnemonic INSTRUCTIONS h st of
             (h', Inl err) \<Rightarrow> (h', Inl err)
           | (h', Inr st') \<Rightarrow> translate e symbol_table h' st'))"

section \<open>Notions used to state the properties\<close>

text \<open>
  \<open>renders e v\<close>: if \<open>v\<close> is true in a condition, \<^verbatim>\<open>hex_value(v)\<close> is a non-empty
  string, so that the size computation can take its length. \<open>byte_count e v\<close> is what
  a field holding \<open>v\<close> then adds to the size: half the length of that string.
\<close>

definition renders :: "env \<Rightarrow> pyval \<Rightarrow> bool" where
  "renders e v = (truthy v \<longrightarrow> (\<exists>s. hex_value e v 2 = PStr s \<and> s \<noteq> []))"

definition byte_count :: "env \<Rightarrow> pyval \<Rightarrow> nat" where
  "byte_count e v =
     (if truthy v then (case hex_value e v 2 of PStr s \<Rightarrow> length s div 2 | _ \<Rightarrow> 0) else 0)"

text \<open>\<open>st'\<close> differs from \<open>st\<close> at most in the three encoding fields and the size.\<close>

definition writes_encoding_only :: "statement \<Rightarrow> statement \<Rightarrow> bool" where
  "writes_encoding_only st st' =
     (st'\<lparr>op_code := op_code st, post_byte := post_byte st, additional := additional st,
          size_bytes := size_bytes st\<rparr> = st)"

text \<open>
  The statement object when a call ends: the statement returned, or the one with the
  error raised.
\<close>

fun raised_with :: "error \<Rightarrow> statement" where
  "raised_with (ParseError msg st) = st"
| "raised_with (TranslationError msg st) = st"
| "raised_with (TypeError st) = st"
| "raised_with (AttributeError st) = st"

definition final_statement :: "error + statement \<Rightarrow> statement" where
  "final_statement res = (case res of Inl err \<Rightarrow> raised_with err | Inr st \<Rightarrow> st)"

definition within_frame :: "statement \<Rightarrow> error + statement \<Rightarrow> bool" where
  "within_frame st res = writes_encoding_only st (final_statement res)"

section \<open>An environment and a table for the examples\<close>

text \<open>
  Modelled from the spec: the digits of \<^verbatim>\<open>hex_value\<close> (see \<open>hex_value_spec\<close>), in
  upper case.
\<close>

definition hex_digit :: "nat \<Rightarrow> char" where
  "hex_digit n = ''0123456789ABCDEF'' ! (n mod 16)"

text \<open>
  Modelled from the spec: the hexadecimal digits of a number, most significant first
  (see \<open>hex_value_spec\<close>).
\<close>

function hex_digits :: "nat \<Rightarrow> string" where
  "hex_digits n = (if n < 16 then [hex_digit n] else hex_digits (n div 16) @ [hex_digit n])"
  by pat_completeness auto
termination
  by (relation "measure id") auto

text \<open>
  Modelled from the spec: \<^verbatim>\<open>cocoasm.helpers.hex_value\<close> is not among the sources.
  The spec has the encoding fields "rendered as hexadecimal byte strings" and gives
  \<^verbatim>\<open>"86"\<close> for the opcode \<^verbatim>\<open>0x86\<close>: an integer is written in upper-case
  hexadecimal, padded with zeros on the left to the requested number of digits; a
  string stands for itself; \<^verbatim>\<open>None\<close> gives \<^verbatim>\<open>None\<close>.
\<close>

definition hex_value_spec :: "pyval \<Rightarrow> nat \<Rightarrow> pyval" where
  "hex_value_spec v width =
     (case v of
        PNone \<Rightarrow> PNone
      | PStr s \<Rightarrow> PStr s
      | PInt i \<Rightarrow> (let s = hex_digits (nat i) in PStr (replicate (width - length s) CHR ''0'' @ s)))"

text \<open>
  Modelled from the spec: the value written in an operand (see \<open>Operand_spec\<close>), without
  the \<^verbatim>\<open>$\<close> that marks it as hexadecimal.
\<close>

definition value_text :: "string \<Rightarrow> string" where
  "value_text s = (case s of [] \<Rightarrow> [] | c # cs \<Rightarrow> if c = CHR ''$'' then cs else s)"

text \<open>Modelled from the spec: the characters of a plain value (see \<open>Operand_spec\<close>).\<close>

definition is_hex_digit :: "char \<Rightarrow> bool" where
  "is_hex_digit c = (c \<in> set ''0123456789ABCDEFabcdef'')"

text \<open>
  Modelled from the spec: an operand of no shape with the given text (see
  \<open>Operand_spec\<close>).
\<close>

definition no_operand :: "string \<Rightarrow> operand" where
  "no_operand s = \<lparr>is_symbol = False, is_inherent = False, is_immediate = False,
     is_extended_indirect = False, is_direct = False, is_extended = False,
     get_string_value = Some s, get_immediate = PNone, get_extended_indirect = PNone\<rparr>"

text \<open>
  Modelled from the spec: the class \<^verbatim>\<open>cocoasm.operand.Operand\<close> is not among the
  sources. The spec classifies operand text as "empty/inherent, immediate
  (\<^verbatim>\<open>#value\<close>), direct (\<^verbatim>\<open><value\<close>), extended (plain value), extended-indirect
  (\<^verbatim>\<open>[value]\<close>), or symbol-reference (bare identifier needing resolution)", and
  gives the value \<^verbatim>\<open>0x05\<close>, rendered \<^verbatim>\<open>"05"\<close>, for \<^verbatim>\<open>#$05\<close>. Here a plain value
  is text made of hexadecimal digits, with or without a leading \<^verbatim>\<open>$\<close>; any other
  text is an identifier; a value that is not a string counts as no text.
\<close>

definition Operand_spec :: "pyval \<Rightarrow> operand" where
  "Operand_spec v =
     (let s = (case v of PStr s \<Rightarrow> s | _ \<Rightarrow> []) in
      if s = [] then (no_operand s)\<lparr>is_inherent := True\<rparr>
      else if hd s = CHR ''#''
        then (no_operand s)\<lparr>is_immediate := True, get_immediate := PStr (value_text (tl s))\<rparr>
      else if hd s = CHR ''<''
        then (no_operand (value_text (tl s)))\<lparr>is_direct := True\<rparr>
      else if hd s = CHR ''['' \<and> last s = CHR '']''
        then (no_operand s)\<lparr>is_extended_indirect := True,
               get_extended_indirect := PStr (value_text (butlast (tl s)))\<rparr>
      else if list_all is_hex_digit (value_text s)
        then (no_operand (value_text s))\<lparr>is_extended := True\<rparr>
      else (no_operand s)\<lparr>is_symbol := True\<rparr>)"

text \<open>The handlers of the example environment produce nothing and change nothing.\<close>

definition example_env :: env where
  "example_env = \<lparr>hex_value = hex_value_spec, Operand = Operand_spec,
     translate_pseudo = (\<lambda>d l opnd symbols. (Inr PNone, d)),
     translate_special = (\<lambda>d opnd. (Inr PNone, d))\<rparr>"

text \<open>Four descriptors with their 6809 opcodes, as objects 0 to 3 of a store.\<close>

definition no_mode :: mode where
  "no_mode = \<lparr>inh = PNone, imm = PNone, dir = PNone, ind = PNone, ext = PNone, rel = PNone,
     supports_inherent = False, supports_immediate = False, supports_indexed = False,
     supports_direct = False, supports_extended = False\<rparr>"

definition descriptor :: "string \<Rightarrow> mode \<Rightarrow> bool \<Rightarrow> instruction" where
  "descriptor m md branch = \<lparr>instruction.mnemonic = m, mode = md, is_pseudo = False,
     is_special = False, is_branch_operation = branch\<rparr>"

definition LDA :: instruction where
  "LDA = descriptor ''LDA''
     (no_mode\<lparr>imm := PInt 0x86, dir := PInt 0x96, ind := PInt 0xA6, ext := PInt 0xB6,
        supports_immediate := True, supports_indexed := True, supports_direct := True,
        supports_extended := True\<rparr>) False"

definition LDX :: instruction where
  "LDX = descriptor ''LDX''
     (no_mode\<lparr>imm := PInt 0x8E, dir := PInt 0x9E, ind := PInt 0xAE, ext := PInt 0xBE,
        supports_immediate := True, supports_indexed := True, supports_direct := True,
        supports_extended := True\<rparr>) False"

definition RTS :: instruction where
  "RTS = descriptor ''RTS'' (no_mode\<lparr>inh := PInt 0x39, supports_inherent := True\<rparr>) False"

definition BRA :: instruction where
  "BRA = descriptor ''BRA'' (no_mode\<lparr>rel := PInt 0x20\<rparr>) True"

definition example_heap :: heap where
  "example_heap =
     \<lparr>store = (\<lambda>r. if r = 0 then LDA else if r = 1 then LDX else if r = 2 then RTS else BRA),
      next_ref = 4\<rparr>"

definition example_INSTRUCTIONS :: "ref list" where
  "example_INSTRUCTIONS = [0, 1, 2, 3]"

text \<open>The statement of the examples after parsing and mnemonic resolution.\<close>

definition example_statement ::
  "string option \<Rightarrow> string option \<Rightarrow> string \<Rightarrow> string option \<Rightarrow> ref option \<Rightarrow> statement" where
  "example_statement l m opnd c i =
     (init_fields example_env)\<lparr>label := l, mnemonic := m, operand := Operand_spec (PStr opnd),
        comment := c, empty_flag := False, instruction := i\<rparr>"

text \<open>A symbol table that defines \<^verbatim>\<open>LOOP\<close> at address 0.\<close>

definition example_symbols :: symbol_table where
  "example_symbols =
     [''LOOP'' \<mapsto> example_statement (Some ''LOOP'') (Some ''LDA'') ''#$05'' (Some ''load'') None]"

section \<open>Lines and patterns\<close>

lemma first_some_SomeD: "first_some f xs = Some y \<Longrightarrow> \<exists>x \<in> set xs. f x = Some y"
  by (induction xs) (auto split: option.splits)

text \<open>A match gives one text for each item of the pattern.\<close>

lemma re_match_length: "re_match is s = Some g \<Longrightarrow> length g = length is"
proof (induction "is" arbitrary: s g)
  case Nil
  then show ?case by (simp split: if_splits)
next
  case (Cons i "is")
  from Cons.prems obtain k where "map_option ((#) (take k s)) (re_match is (drop k s)) = Some g"
    by (auto dest: first_some_SomeD)
  then obtain g' where "re_match is (drop k s) = Some g'" and "g = take k s # g'"
    by auto
  with Cons.IH show ?case by auto
qed

lemma takeWhile_all: "list_all P xs \<Longrightarrow> takeWhile P xs = xs"
  by (induction xs) auto

lemma blank_matches: "list_all is_space line \<Longrightarrow> re_match BLANK_LINE_REGEX line = Some [line]"
  by (simp add: BLANK_LINE_REGEX_def takeWhile_all at_end_def)

text \<open>The blank-line pattern matches exactly the lines of white space.\<close>

lemma takeWhile_length_all: "length (takeWhile P xs) = length xs \<Longrightarrow> list_all P xs"
  by (induction xs) (auto split: if_splits)

lemma blank_only_white_space:
  assumes "re_match BLANK_LINE_REGEX line \<noteq> None"
  shows "list_all is_space line"
proof -
  let ?n = "length (takeWhile is_space line)"
  from assms obtain g where "re_match BLANK_LINE_REGEX line = Some g" by auto
  then have "first_some (\<lambda>k. map_option ((#) (take k line)) (re_match [] (drop k line)))
      (rev [0 ..< Suc ?n]) = Some g"
    by (simp add: BLANK_LINE_REGEX_def)
  from first_some_SomeD [OF this] obtain k where
    "k \<in> set (rev [0 ..< Suc ?n])"
    "map_option ((#) (take k line)) (re_match [] (drop k line)) = Some g"
    by blast
  then have k: "k \<le> ?n" "at_end (drop k line)"
    by (auto split: if_splits)
  have n: "?n \<le> length line" by (rule length_takeWhile_le)
  show ?thesis
  proof (cases "drop k line = []")
    case True
    with k(1) n have "?n = length line" by simp
    then show ?thesis by (rule takeWhile_length_all)
  next
    case False
    with k(2) have d: "drop k line = [CHR 0x0A]" by (simp add: at_end_def)
    then have "length (drop k line) = 1" by simp
    then have kl: "Suc k = length line" by simp
    have "line ! k = CHR 0x0A"
      using d kl by (metis Cons_nth_drop_Suc lessI list.inject)
    then have sp: "is_space (line ! k)" by (simp add: is_space_def)
    have "?n = length line"
    proof (rule ccontr)
      assume "?n \<noteq> length line"
      with n kl k(1) have "?n = k" by simp
      then have "\<not> is_space (line ! k)"
        using kl by (metis lessI nth_length_takeWhile)
      with sp show False by simp
    qed
    then show ?thesis by (rule takeWhile_length_all)
  qed
qed

lemma blank_iff: "re_match BLANK_LINE_REGEX line \<noteq> None \<longleftrightarrow> list_all is_space line"
  using blank_only_white_space blank_matches by auto

text \<open>
  Claim C8. A line made of white space only (the empty line included) is parsed without
  error; the statement is marked empty, has no label, no mnemonic and no comment, its
  operand is the one built from no text, its size is 0, and no encoding field and no
  descriptor is set.
\<close>

theorem blank_line_gives_empty_statement:
  assumes "list_all is_space line"
  shows "\<exists>st. Statement e line = Inr st \<and> empty_flag st \<and> \<not> comment_only st \<and>
           label st = None \<and> mnemonic st = None \<and> comment st = None \<and>
           operand st = Operand e PNone \<and> size_bytes st = 0 \<and> instruction st = None \<and>
           op_code st = PNone \<and> post_byte st = PNone \<and> additional st = PNone"
  using blank_matches [OF assms]
  by (simp add: Statement_def parse_line_def init_fields_def set_address_def)

text \<open>
  Claim C9. Parsing raises \<^verbatim>\<open>ParseError\<close>, with the message
  \<^verbatim>\<open>Could not parse line [...]\<close> around the original line and the statement as it was
  constructed, exactly for the lines that match none of the three patterns; it raises
  no other error.
\<close>

theorem parse_error_iff_no_pattern_matches:
  "(Statement e line =
      Inl (ParseError (''Could not parse line ['' @ line @ '']'') (init_fields e))
    \<longleftrightarrow> re_match BLANK_LINE_REGEX line = None \<and> re_match COMMENT_LINE_REGEX line = None \<and>
        re_match ASM_LINE_REGEX line = None) \<and>
   (\<forall>err. Statement e line = Inl err \<longrightarrow>
      err = ParseError (''Could not parse line ['' @ line @ '']'') (init_fields e))"
  by (auto simp: Statement_def parse_line_def split: option.splits)


text \<open>\<^verbatim>\<open>translate\<close> itself looks nothing up: it needs the descriptor in place.\<close>

lemma translate_without_descriptor:
  "instruction st = None \<Longrightarrow> translate e symbol_table h st = (h, Inl (AttributeError st))"
  by (simp add: translate_def)


text \<open>
  Claim C4. With a descriptor that is neither a pseudo-op nor a special operation, and
  an operand that is a symbol absent from the symbol table, \<^verbatim>\<open>translate\<close> raises the
  \<^verbatim>\<open>TranslationError\<close> \<^verbatim>\<open>Unknown symbol [...]\<close> naming the symbol; the statement it
  carries is the unchanged one, so no encoding field has been written.
\<close>

theorem unknown_symbol_is_translation_error:
  assumes "instruction st = Some r"
    and "\<not> is_pseudo (store h r)" and "\<not> is_special (store h r)"
    and "is_symbol (operand st)"
    and "get_string_value (operand st) = Some s"
    and "symbol_table s = None"
  shows "translate e symbol_table h st =
           (h, Inl (TranslationError (''Unknown symbol ['' @ s @ '']'') st))"
  using assms
  by (simp add: translate_def resolve_operand_def and_then_def fmt_def)

section \<open>Size computation\<close>

lemma count_op_code_renders:
  "renders e (op_code st) \<Longrightarrow>
   count_op_code e st = Inr (st\<lparr>size_bytes := size_bytes st + byte_count e (op_code st)\<rparr>)"
  by (auto simp: renders_def count_op_code_def byte_count_def get_op_codes_def half_len_def
      and_then_def)

lemma count_additional_renders:
  "renders e (additional st) \<Longrightarrow>
   count_additional e st = Inr (st\<lparr>size_bytes := size_bytes st + byte_count e (additional st)\<rparr>)"
  by (auto simp: renders_def count_additional_def byte_count_def get_additional_def half_len_def
      and_then_def)

lemma count_post_byte_renders:
  "renders e (post_byte st) \<Longrightarrow>
   count_post_byte e st = Inr (st\<lparr>size_bytes := size_bytes st + byte_count e (post_byte st)\<rparr>)"
  by (auto simp: renders_def count_post_byte_def byte_count_def get_post_byte_def half_len_def
      and_then_def)

lemma count_all:
  assumes "renders e (op_code st)" "renders e (additional st)" "renders e (post_byte st)"
  shows "and_then (count_op_code e st) (\<lambda>st. and_then (count_additional e st) (count_post_byte e)) =
         Inr (st\<lparr>size_bytes := size_bytes st + byte_count e (op_code st) +
                    byte_count e (additional st) + byte_count e (post_byte st)\<rparr>)"
  using assms
  by (simp add: count_op_code_renders count_additional_renders count_post_byte_renders and_then_def)

lemma and_then_Inr: "and_then r f = Inr y \<Longrightarrow> \<exists>x. r = Inr x \<and> f x = Inr y"
  by (cases r) (simp_all add: and_then_def)

lemma count_op_code_Inr:
  "count_op_code e st = Inr st' \<Longrightarrow>
   st' = st\<lparr>size_bytes := size_bytes st + byte_count e (op_code st)\<rparr>"
  by (auto simp: count_op_code_def byte_count_def get_op_codes_def half_len_def and_then_def
      Let_def split: if_splits pyval.splits)

lemma count_additional_Inr:
  "count_additional e st = Inr st' \<Longrightarrow>
   st' = st\<lparr>size_bytes := size_bytes st + byte_count e (additional st)\<rparr>"
  by (auto simp: count_additional_def byte_count_def get_additional_def half_len_def and_then_def
      Let_def split: if_splits pyval.splits)

lemma count_post_byte_Inr:
  "count_post_byte e st = Inr st' \<Longrightarrow>
   st' = st\<lparr>size_bytes := size_bytes st + byte_count e (post_byte st)\<rparr>"
  by (auto simp: count_post_byte_def byte_count_def get_post_byte_def half_len_def and_then_def
      Let_def split: if_splits pyval.splits)

lemma steps_keep_size:
  "inherent_step d opnd st = Inr st' \<Longrightarrow> size_bytes st' = size_bytes st"
  "immediate_step d opnd st = Inr st' \<Longrightarrow> size_bytes st' = size_bytes st"
  "extended_indirect_step d opnd st = Inr st' \<Longrightarrow> size_bytes st' = size_bytes st"
  "direct_step d opnd st = Inr st' \<Longrightarrow> size_bytes st' = size_bytes st"
  "extended_step d opnd st = Inr st' \<Longrightarrow> size_bytes st' = size_bytes st"
  by (auto simp: inherent_step_def immediate_step_def extended_indirect_step_def direct_step_def
      extended_step_def split: if_splits)

text \<open>
  On the addressing-mode path the size grows by the byte counts of the three encoding
  fields that are true in a condition.
\<close>

lemma encode_size:
  assumes "\<not> is_branch_operation d" and "encode e d opnd st = Inr st'"
  shows "size_bytes st' = size_bytes st + byte_count e (op_code st') +
           byte_count e (additional st') + byte_count e (post_byte st')"
proof -
  from assms obtain s1 s2 s3 s4 s5 s6 s7 where
    "inherent_step d opnd st = Inr s1" "immediate_step d opnd s1 = Inr s2"
    "extended_indirect_step d opnd s2 = Inr s3" "direct_step d opnd s3 = Inr s4"
    "extended_step d opnd s4 = Inr s5" and
    c: "count_op_code e s5 = Inr s6" "count_additional e s6 = Inr s7"
      "count_post_byte e s7 = Inr st'"
    unfolding encode_def by (auto dest!: and_then_Inr)
  then have "size_bytes s5 = size_bytes st"
    by (simp add: steps_keep_size)
  with count_op_code_Inr [OF c(1)] count_additional_Inr [OF c(2)] count_post_byte_Inr [OF c(3)]
  show ?thesis by simp
qed

section \<open>Frame\<close>

lemma woe_refl: "writes_encoding_only st st"
  by (simp add: writes_encoding_only_def)

lemma woe_trans:
  "writes_encoding_only a b \<Longrightarrow> writes_encoding_only b c \<Longrightarrow> writes_encoding_only a c"
  unfolding writes_encoding_only_def
  by (cases a, cases b, cases c) simp

lemma woe_update:
  "writes_encoding_only st (st\<lparr>op_code := a\<rparr>)"
  "writes_encoding_only st (st\<lparr>op_code := a, additional := b\<rparr>)"
  "writes_encoding_only st (st\<lparr>op_code := a, additional := b, post_byte := c\<rparr>)"
  "writes_encoding_only st (st\<lparr>size_bytes := n\<rparr>)"
  by (simp_all add: writes_encoding_only_def)

lemma within_frame_and_then:
  assumes "within_frame st res"
    and "\<And>st1. writes_encoding_only st st1 \<Longrightarrow> within_frame st1 (f st1)"
  shows "within_frame st (and_then res f)"
proof (cases res)
  case (Inl err)
  with assms(1) show ?thesis by (simp add: and_then_def)
next
  case (Inr st1)
  with assms(1) have w: "writes_encoding_only st st1"
    by (simp add: within_frame_def final_statement_def)
  from assms(2) [OF w] have "within_frame st1 (f st1)" .
  with w have "within_frame st (f st1)"
    by (auto simp: within_frame_def intro: woe_trans)
  with Inr show ?thesis by (simp add: and_then_def)
qed

lemma steps_within_frame:
  "within_frame st (inherent_step d opnd st)"
  "within_frame st (immediate_step d opnd st)"
  "within_frame st (extended_indirect_step d opnd st)"
  "within_frame st (direct_step d opnd st)"
  "within_frame st (extended_step d opnd st)"
  by (simp_all add: within_frame_def final_statement_def inherent_step_def immediate_step_def
      extended_indirect_step_def direct_step_def extended_step_def woe_update woe_refl)

lemma counts_within_frame:
  "within_frame st (count_op_code e st)"
  "within_frame st (count_additional e st)"
  "within_frame st (count_post_byte e st)"
  by (auto simp: within_frame_def final_statement_def count_op_code_def count_additional_def
      count_post_byte_def and_then_def half_len_def woe_update woe_refl split: pyval.splits)

lemma encode_within_frame: "within_frame st (encode e d opnd st)"
proof (cases "is_branch_operation d")
  case True
  then show ?thesis by (simp add: encode_def within_frame_def final_statement_def woe_update)
next
  case False
  then show ?thesis
    by (simp add: encode_def)
      (intro within_frame_and_then steps_within_frame counts_within_frame)
qed

lemma resolve_operand_error:
  "resolve_operand e symbol_table st = Inl err \<Longrightarrow> \<exists>msg. err = TranslationError msg st"
  by (auto simp: resolve_operand_def Let_def split: if_splits option.splits)

lemma translate_within_frame:
  assumes "instruction st = Some r" "\<not> is_pseudo (store h r)" "\<not> is_special (store h r)"
  shows "within_frame st (snd (translate e symbol_table h st))"
proof (cases "resolve_operand e symbol_table st")
  case (Inl err)
  with resolve_operand_error [OF Inl] assms show ?thesis
    by (auto simp: translate_def and_then_def within_frame_def final_statement_def woe_refl)
next
  case (Inr resolved)
  with assms encode_within_frame show ?thesis
    by (auto simp: translate_def and_then_def within_frame_def final_statement_def woe_refl
        split: option.splits)
qed

text \<open>
  Claim C10. With a descriptor that is neither a pseudo-op nor a special operation,
  \<^verbatim>\<open>translate\<close> leaves the store of descriptors as it is, and the statement it returns
  (or the one carried by the \<^verbatim>\<open>TranslationError\<close> it raises) differs from the given one
  at most in \<^verbatim>\<open>op_code\<close>, \<^verbatim>\<open>post_byte\<close>, \<^verbatim>\<open>additional\<close> and \<^verbatim>\<open>size\<close>: label,
  mnemonic, comment, address and operand are unchanged, also when a symbol was resolved.
\<close>

theorem translate_writes_encoding_fields_only:
  assumes "instruction st = Some r"
    and "\<not> is_pseudo (store h r)" and "\<not> is_special (store h r)"
  shows "fst (translate e symbol_table h st) = h \<and>
         label (final_statement (snd (translate e symbol_table h st))) = label st \<and>
         mnemonic (final_statement (snd (translate e symbol_table h st))) = mnemonic st \<and>
         comment (final_statement (snd (translate e symbol_table h st))) = comment st \<and>
         address (final_statement (snd (translate e symbol_table h st))) = address st \<and>
         operand (final_statement (snd (translate e symbol_table h st))) = operand st \<and>
         (final_statement (snd (translate e symbol_table h st)))
           \<lparr>op_code := op_code st, post_byte := post_byte st, additional := additional st,
            size_bytes := size_bytes st\<rparr> = st"
proof -
  let ?st' = "final_statement (snd (translate e symbol_table h st))"
  have h: "fst (translate e symbol_table h st) = h"
    using assms by (simp add: translate_def)
  have w: "writes_encoding_only st ?st'"
    using translate_within_frame [OF assms] by (simp add: within_frame_def)
  then have "label ?st' = label st \<and> mnemonic ?st' = mnemonic st \<and> comment ?st' = comment st \<and>
      address ?st' = address st \<and> operand ?st' = operand st"
    unfolding writes_encoding_only_def by (cases st, cases ?st') simp
  with h w show ?thesis
    unfolding writes_encoding_only_def by simp
qed

section \<open>The instruction table\<close>





section \<open>Addressing modes\<close>

lemma translate_plain:
  assumes "instruction st = Some r"
    and "\<not> is_pseudo (store h r)" and "\<not> is_special (store h r)"
    and "\<not> is_symbol (operand st)"
  shows "translate e symbol_table h st = (h, encode e (store h r) (operand st) st)"
  using assms by (simp add: translate_def resolve_operand_def and_then_def)

text \<open>
  Claim C6. With a descriptor that is not a pseudo-op, special or branch operation and
  an operand that is extended-indirect (and of no other shape): if the descriptor
  supports indexed addressing, and the three values written can be rendered,
  \<^verbatim>\<open>translate\<close> sets the opcode to the indexed-mode opcode, \<^verbatim>\<open>additional\<close> to the
  operand's extended-indirect value and the post-byte to \<^verbatim>\<open>0x9F\<close>, and adds their byte
  counts to the size; if it does not, \<^verbatim>\<open>translate\<close> raises the \<^verbatim>\<open>TranslationError\<close>
  \<^verbatim>\<open>Instruction [...] does not support indexed addressing\<close> naming the mnemonic.
\<close>

theorem extended_indirect_translation:
  assumes "instruction st = Some r"
    and "\<not> is_pseudo (store h r)" and "\<not> is_special (store h r)"
    and "\<not> is_branch_operation (store h r)"
    and "\<not> is_symbol (operand st)" and "\<not> is_inherent (operand st)"
    and "\<not> is_immediate (operand st)" and "is_extended_indirect (operand st)"
    and "\<not> is_direct (operand st)" and "\<not> is_extended (operand st)"
  shows "(supports_indexed (mode (store h r)) \<and> renders e (ind (mode (store h r))) \<and>
          renders e (get_extended_indirect (operand st)) \<and> renders e (PInt 0x9F) \<longrightarrow>
            translate e symbol_table h st =
              (h, Inr (st\<lparr>op_code := ind (mode (store h r)),
                          additional := get_extended_indirect (operand st),
                          post_byte := PInt 0x9F,
                          size_bytes := size_bytes st + byte_count e (ind (mode (store h r))) +
                            byte_count e (get_extended_indirect (operand st)) +
                            byte_count e (PInt 0x9F)\<rparr>))) \<and>
         (\<not> supports_indexed (mode (store h r)) \<longrightarrow>
            translate e symbol_table h st =
              (h, Inl (TranslationError
                 (''Instruction ['' @ fmt (mnemonic st) @ ''] does not support indexed addressing'')
                 st)))"
proof -
  let ?st1 = "st\<lparr>op_code := ind (mode (store h r)),
                 additional := get_extended_indirect (operand st), post_byte := PInt 0x9F\<rparr>"
  have t: "translate e symbol_table h st = (h, encode e (store h r) (operand st) st)"
    using assms by (simp add: translate_plain)
  have ok: "encode e (store h r) (operand st) st =
      and_then (count_op_code e ?st1)
        (\<lambda>st. and_then (count_additional e st) (count_post_byte e))"
    if "supports_indexed (mode (store h r))"
    using assms that
    by (simp add: encode_def inherent_step_def immediate_step_def extended_indirect_step_def
        direct_step_def extended_step_def and_then_def)
  have bad: "encode e (store h r) (operand st) st =
      Inl (TranslationError
        (''Instruction ['' @ fmt (mnemonic st) @ ''] does not support indexed addressing'') st)"
    if "\<not> supports_indexed (mode (store h r))"
    using assms that
    by (simp add: encode_def inherent_step_def immediate_step_def extended_indirect_step_def
        and_then_def)
  show ?thesis
    using t ok bad count_all [of e ?st1] by simp
qed




lemma example_line_matches:
  "re_match BLANK_LINE_REGEX ''LOOP    LDA     #$05        ; load'' = None"
  "re_match COMMENT_LINE_REGEX ''LOOP    LDA     #$05        ; load'' = None"
  "re_match ASM_LINE_REGEX ''LOOP    LDA     #$05        ; load'' =
     Some [''LOOP'', ''    '', ''LDA'', ''     '', ''#$05'', ''        '', '';'', '' load'']"
  "strip '' load'' = ''load''"
  by code_simp+

lemma example_line_parsed:
  "Statement e ''LOOP    LDA     #$05        ; load'' =
     Inr ((init_fields e)\<lparr>label := Some ''LOOP'', mnemonic := Some ''LDA'',
            operand := Operand e (PStr ''#$05''), comment := Some ''load'',
            empty_flag := False\<rparr>)"
  by (simp add: Statement_def parse_line_def example_line_matches or_None_def)

lemma example_operand:
  "is_immediate (Operand_spec (PStr ''#$05''))"
  "get_immediate (Operand_spec (PStr ''#$05'')) = PStr ''05''"
  by (simp_all add: Operand_spec_def no_operand_def value_text_def)

text \<open>
  Claim C5, amended. The line \<^verbatim>\<open>LOOP    LDA     #$05        ; load\<close> is parsed to label
  \<^verbatim>\<open>LOOP\<close>, mnemonic \<^verbatim>\<open>LDA\<close>, the operand built from \<^verbatim>\<open>#$05\<close> (immediate, with
  value \<^verbatim>\<open>05\<close>, for the classifier modelled from the spec) and comment \<^verbatim>\<open>load\<close>. With
  a descriptor that is not a pseudo-op, special or branch operation and supports
  immediate mode, and an operand that is immediate (and of no other shape),
  \<^verbatim>\<open>translate\<close> sets the opcode to the immediate opcode and \<^verbatim>\<open>additional\<close> to the
  immediate value, and adds to the size the byte counts of the two: 2 when each
  renders as one byte, as for \<^verbatim>\<open>LDA #$05\<close>.
\<close>

theorem immediate_translation:
  assumes "instruction st = Some r"
    and "\<not> is_pseudo (store h r)" and "\<not> is_special (store h r)"
    and "\<not> is_branch_operation (store h r)"
    and "supports_immediate (mode (store h r))"
    and "\<not> is_symbol (operand st)" and "\<not> is_inherent (operand st)"
    and "is_immediate (operand st)" and "\<not> is_extended_indirect (operand st)"
    and "\<not> is_direct (operand st)" and "\<not> is_extended (operand st)"
    and "post_byte st = PNone"
    and "renders e (imm (mode (store h r)))" and "renders e (get_immediate (operand st))"
  shows "(\<exists>p. Statement e ''LOOP    LDA     #$05        ; load'' = Inr p \<and>
            label p = Some ''LOOP'' \<and> mnemonic p = Some ''LDA'' \<and>
            operand p = Operand e (PStr ''#$05'') \<and> comment p = Some ''load'') \<and>
         is_immediate (Operand_spec (PStr ''#$05'')) \<and>
         get_immediate (Operand_spec (PStr ''#$05'')) = PStr ''05'' \<and>
         translate e symbol_table h st =
           (h, Inr (st\<lparr>op_code := imm (mode (store h r)),
                       additional := get_immediate (operand st),
                       size_bytes := size_bytes st + byte_count e (imm (mode (store h r))) +
                         byte_count e (get_immediate (operand st))\<rparr>))"
proof -
  let ?st1 = "st\<lparr>op_code := imm (mode (store h r)), additional := get_immediate (operand st)\<rparr>"
  have "encode e (store h r) (operand st) st =
      and_then (count_op_code e ?st1)
        (\<lambda>st. and_then (count_additional e st) (count_post_byte e))"
    using assms
    by (simp add: encode_def inherent_step_def immediate_step_def extended_indirect_step_def
        direct_step_def extended_step_def and_then_def)
  also have "\<dots> = Inr (?st1\<lparr>size_bytes := size_bytes ?st1 + byte_count e (op_code ?st1) +
                    byte_count e (additional ?st1) + byte_count e (post_byte ?st1)\<rparr>)"
    using assms by (intro count_all) (simp_all add: renders_def)
  finally have "translate e symbol_table h st =
           (h, Inr (st\<lparr>op_code := imm (mode (store h r)),
                       additional := get_immediate (operand st),
                       size_bytes := size_bytes st + byte_count e (imm (mode (store h r))) +
                         byte_count e (get_immediate (operand st))\<rparr>))"
    using assms by (simp add: translate_plain byte_count_def)
  then show ?thesis
    by (simp add: example_line_parsed example_operand)
qed

section \<open>The examples\<close>

lemma hex_digits_not_empty: "hex_digits n \<noteq> []"
  by (subst hex_digits.simps) simp

lemma renders_example: "renders example_env v"
  by (cases v) (simp_all add: renders_def example_env_def hex_value_spec_def Let_def
      hex_digits_not_empty)

lemma example_byte_counts:
  "byte_count example_env (PInt 0x86) = 1"
  "byte_count example_env (PInt 0x8E) = 1"
  "byte_count example_env (PInt 0x39) = 1"
  "byte_count example_env (PInt 0xA6) = 1"
  "byte_count example_env (PInt 0x9F) = 1"
  "byte_count example_env (PStr ''05'') = 1"
  "byte_count example_env (PStr ''1234'') = 2"
  by code_simp+

theorem blank_line_witness:
  "list_all is_space ''   '' \<and>
   (\<exists>st. Statement example_env ''   '' = Inr st \<and> empty_flag st \<and> \<not> comment_only st \<and>
           label st = None \<and> mnemonic st = None \<and> comment st = None \<and>
           operand st = Operand example_env PNone \<and> size_bytes st = 0 \<and> instruction st = None \<and>
           op_code st = PNone \<and> post_byte st = PNone \<and> additional st = PNone)"
proof -
  have h: "list_all is_space ''   ''" by (simp add: is_space_def)
  from blank_line_gives_empty_statement [OF h, of example_env] h show ?thesis by (rule conjI [rotated])
qed

theorem parse_error_witness:
  "(re_match BLANK_LINE_REGEX ''LDA'' = None \<and> re_match COMMENT_LINE_REGEX ''LDA'' = None \<and>
    re_match ASM_LINE_REGEX ''LDA'' = None) \<and>
   Statement example_env ''LDA'' =
     Inl (ParseError ''Could not parse line [LDA]'' (init_fields example_env))"
proof -
  have n: "re_match BLANK_LINE_REGEX ''LDA'' = None" "re_match COMMENT_LINE_REGEX ''LDA'' = None"
    "re_match ASM_LINE_REGEX ''LDA'' = None"
    by code_simp+
  note t = parse_error_iff_no_pattern_matches [of example_env "''LDA''", THEN conjunct1, THEN iffD2]
  have "Statement example_env ''LDA'' =
     Inl (ParseError (''Could not parse line ['' @ ''LDA'' @ '']'') (init_fields example_env))"
    by (rule t) (intro conjI n)
  with n show ?thesis by simp
qed


theorem unknown_symbol_witness:
  "instruction (example_statement None (Some ''LDA'') ''NOWHERE'' None (Some 4)) = Some 4 \<and>
   \<not> is_pseudo (store (snd (copy example_heap 0)) 4) \<and>
   \<not> is_special (store (snd (copy example_heap 0)) 4) \<and>
   is_symbol (operand (example_statement None (Some ''LDA'') ''NOWHERE'' None (Some 4))) \<and>
   get_string_value (operand (example_statement None (Some ''LDA'') ''NOWHERE'' None (Some 4)))
     = Some ''NOWHERE'' \<and>
   example_symbols ''NOWHERE'' = None \<and>
   translate example_env example_symbols (snd (copy example_heap 0))
       (example_statement None (Some ''LDA'') ''NOWHERE'' None (Some 4)) =
     (snd (copy example_heap 0), Inl (TranslationError ''Unknown symbol [NOWHERE]''
        (example_statement None (Some ''LDA'') ''NOWHERE'' None (Some 4))))"
proof -
  let ?st = "example_statement None (Some ''LDA'') ''NOWHERE'' None (Some 4)"
  let ?h = "snd (copy example_heap 0)"
  have h: "instruction ?st = Some 4" "\<not> is_pseudo (store ?h 4)" "\<not> is_special (store ?h 4)"
    "is_symbol (operand ?st)" "get_string_value (operand ?st) = Some ''NOWHERE''"
    "example_symbols ''NOWHERE'' = None"
    by code_simp+
  from unknown_symbol_is_translation_error [where st = ?st and r = 4 and h = ?h
      and s = "''NOWHERE''" and symbol_table = example_symbols and e = example_env, OF h] h
  show ?thesis by simp
qed

theorem translate_frame_witness:
  "instruction (example_statement (Some ''LOOP'') (Some ''LDA'') ''#$05'' (Some ''load'') (Some 4))
     = Some 4 \<and>
   \<not> is_pseudo (store (snd (copy example_heap 0)) 4) \<and>
   \<not> is_special (store (snd (copy example_heap 0)) 4) \<and>
   snd (translate example_env example_symbols (snd (copy example_heap 0))
       (example_statement (Some ''LOOP'') (Some ''LDA'') ''#$05'' (Some ''load'') (Some 4))) =
     Inr ((example_statement (Some ''LOOP'') (Some ''LDA'') ''#$05'' (Some ''load'') (Some 4))
            \<lparr>op_code := PInt 0x86, additional := PStr ''05'', size_bytes := 2\<rparr>) \<and>
   label (final_statement (snd (translate example_env example_symbols (snd (copy example_heap 0))
       (example_statement (Some ''LOOP'') (Some ''LDA'') ''#$05'' (Some ''load'') (Some 4))))) =
     Some ''LOOP'' \<and>
   operand (final_statement (snd (translate example_env example_symbols (snd (copy example_heap 0))
       (example_statement (Some ''LOOP'') (Some ''LDA'') ''#$05'' (Some ''load'') (Some 4))))) =
     Operand_spec (PStr ''#$05'')"
proof -
  let ?st = "example_statement (Some ''LOOP'') (Some ''LDA'') ''#$05'' (Some ''load'') (Some 4)"
  let ?h = "snd (copy example_heap 0)"
  have h: "instruction ?st = Some 4" "\<not> is_pseudo (store ?h 4)" "\<not> is_special (store ?h 4)"
    by code_simp+
  have r: "snd (translate example_env example_symbols ?h ?st) =
      Inr (?st\<lparr>op_code := PInt 0x86, additional := PStr ''05'', size_bytes := 2\<rparr>)"
    by code_simp
  have v: "label ?st = Some ''LOOP''" "operand ?st = Operand_spec (PStr ''#$05'')"
    by (simp_all add: example_statement_def)
  from translate_writes_encoding_fields_only [where st = ?st and r = 4 and h = ?h
      and e = example_env and symbol_table = example_symbols, OF h] h r v
  show ?thesis by simp
qed


theorem extended_indirect_witness:
  "instruction (example_statement None (Some ''LDA'') ''[$1234]'' None (Some 4)) = Some 4 \<and>
   is_extended_indirect (operand (example_statement None (Some ''LDA'') ''[$1234]'' None (Some 4))) \<and>
   supports_indexed (mode (store (snd (copy example_heap 0)) 4)) \<and>
   translate example_env example_symbols (snd (copy example_heap 0))
       (example_statement None (Some ''LDA'') ''[$1234]'' None (Some 4)) =
     (snd (copy example_heap 0),
      Inr ((example_statement None (Some ''LDA'') ''[$1234]'' None (Some 4))
             \<lparr>op_code := PInt 0xA6, additional := PStr ''1234'', post_byte := PInt 0x9F,
               size_bytes := 4\<rparr>))"
proof -
  let ?st = "example_statement None (Some ''LDA'') ''[$1234]'' None (Some 4)"
  let ?h = "snd (copy example_heap 0)"
  have h: "instruction ?st = Some 4"
    "\<not> is_pseudo (store ?h 4)" "\<not> is_special (store ?h 4)" "\<not> is_branch_operation (store ?h 4)"
    "\<not> is_symbol (operand ?st)" "\<not> is_inherent (operand ?st)" "\<not> is_immediate (operand ?st)"
    "is_extended_indirect (operand ?st)" "\<not> is_direct (operand ?st)" "\<not> is_extended (operand ?st)"
    by code_simp+
  have v: "supports_indexed (mode (store ?h 4))" "ind (mode (store ?h 4)) = PInt 0xA6"
    "get_extended_indirect (operand ?st) = PStr ''1234''" "size_bytes ?st = 0"
    by code_simp+
  from extended_indirect_translation [where st = ?st and r = 4 and h = ?h and e = example_env
      and symbol_table = example_symbols, OF h] v renders_example
  have "translate example_env example_symbols ?h ?st =
     (?h, Inr (?st\<lparr>op_code := PInt 0xA6, additional := PStr ''1234'', post_byte := PInt 0x9F,
               size_bytes := 0 + byte_count example_env (PInt 0xA6) +
                 byte_count example_env (PStr ''1234'') + byte_count example_env (PInt 0x9F)\<rparr>))"
    by simp
  with h v show ?thesis by (simp add: example_byte_counts)
qed


theorem immediate_witness:
  "instruction (example_statement (Some ''LOOP'') (Some ''LDA'') ''#$05'' (Some ''load'') (Some 4))
     = Some 4 \<and>
   supports_immediate (mode (store (snd (copy example_heap 0)) 4)) \<and>
   is_immediate
     (operand (example_statement (Some ''LOOP'') (Some ''LDA'') ''#$05'' (Some ''load'') (Some 4))) \<and>
   translate example_env example_symbols (snd (copy example_heap 0))
       (example_statement (Some ''LOOP'') (Some ''LDA'') ''#$05'' (Some ''load'') (Some 4)) =
     (snd (copy example_heap 0),
      Inr ((example_statement (Some ''LOOP'') (Some ''LDA'') ''#$05'' (Some ''load'') (Some 4))
             \<lparr>op_code := PInt 0x86, additional := PStr ''05'', size_bytes := 2\<rparr>))"
proof -
  let ?st = "example_statement (Some ''LOOP'') (Some ''LDA'') ''#$05'' (Some ''load'') (Some 4)"
  let ?h = "snd (copy example_heap 0)"
  have h: "instruction ?st = Some 4"
    "\<not> is_pseudo (store ?h 4)" "\<not> is_special (store ?h 4)" "\<not> is_branch_operation (store ?h 4)"
    "supports_immediate (mode (store ?h 4))"
    "\<not> is_symbol (operand ?st)" "\<not> is_inherent (operand ?st)" "is_immediate (operand ?st)"
    "\<not> is_extended_indirect (operand ?st)" "\<not> is_direct (operand ?st)"
    "\<not> is_extended (operand ?st)" "post_byte ?st = PNone"
    by code_simp+
  have v: "imm (mode (store ?h 4)) = PInt 0x86" "get_immediate (operand ?st) = PStr ''05''"
    "size_bytes ?st = 0"
    by code_simp+
  from immediate_translation [where st = ?st and r = 4 and h = ?h and e = example_env
      and symbol_table = example_symbols, OF h renders_example renders_example] v
  have "translate example_env example_symbols ?h ?st =
     (?h, Inr (?st\<lparr>op_code := PInt 0x86, additional := PStr ''05'',
               size_bytes := 0 + byte_count example_env (PInt 0x86) +
                 byte_count example_env (PStr ''05'')\<rparr>))"
    by simp
  with h show ?thesis by (simp add: example_byte_counts)
qed

theorem immediate_size_counterexample:
  "is_immediate (operand (example_statement None (Some ''LDX'') ''#$1234'' None (Some 4))) \<and>
   supports_immediate (mode (store (snd (copy example_heap 1)) 4)) \<and>
   snd (translate example_env example_symbols (snd (copy example_heap 1))
       (example_statement None (Some ''LDX'') ''#$1234'' None (Some 4))) =
     Inr ((example_statement None (Some ''LDX'') ''#$1234'' None (Some 4))
            \<lparr>op_code := PInt 0x8E, additional := PStr ''1234'', size_bytes := 3\<rparr>) \<and>
   snd (assemble_line example_env example_INSTRUCTIONS example_heap example_symbols
       '' LDX #$1234'') =
     Inr ((example_statement None (Some ''LDX'') ''#$1234'' None (Some 4))
            \<lparr>op_code := PInt 0x8E, additional := PStr ''1234'', size_bytes := 3\<rparr>)"
  by code_simp

text \<open>
  Claim C1 (the size is the sum of the byte lengths of the encoding fields that are
  present, for every category of descriptor), on a branch operation: the line
  \<^verbatim>\<open>BRA LOOP\<close> is translated to the opcode \<^verbatim>\<open>0x20\<close>, rendered \<^verbatim>\<open>20\<close>, one byte, and
  the size of the statement is still 0, since \<^verbatim>\<open>translate\<close> returns before the size
  is computed.
\<close>

theorem branch_size_not_counted:
  "snd (assemble_line example_env example_INSTRUCTIONS example_heap example_symbols
       '' BRA LOOP'') =
     Inr ((example_statement None (Some ''BRA'') ''LOOP'' None (Some 4))\<lparr>op_code := PInt 0x20\<rparr>) \<and>
   get_op_codes example_env
     ((example_statement None (Some ''BRA'') ''LOOP'' None (Some 4))\<lparr>op_code := PInt 0x20\<rparr>) =
     PStr ''20'' \<and>
   get_size ((example_statement None (Some ''BRA'') ''LOOP'' None (Some 4))\<lparr>op_code := PInt 0x20\<rparr>)
     = 0"
  by code_simp

end
